theory Spec2Isabelle
  imports Main "HOL-Library.Word"
begin

section \<open>The DuckDuckGo search tool of qwen-code\<close>

text \<open>
  A shallow embedding of \<^verbatim>\<open>packages/core/src/tools/duckduckgo-search.ts\<close>: the class
  \<^verbatim>\<open>DuckDuckGoSearchTool\<close> with its methods \<^verbatim>\<open>validateToolParams\<close> and
  \<^verbatim>\<open>execute\<close>.

  The two collaborators of the tool that the source imports but does not define are
  arguments of the model:
  \<^item> \<^verbatim>\<open>SchemaValidator.validate(this.schema.parameters, params)\<close>, a function from the
    parameter object to \<^verbatim>\<open>string | null\<close> (argument \<open>sv\<close>);
  \<^item> \<^verbatim>\<open>this.ddgs.text(request)\<close>, the search provider, a function from the request to
    the settlement of the promise it returns (argument \<open>ddgs\<close>).
  What \<^verbatim>\<open>execute\<close> does beyond returning a value (the provider call, the line written
  with \<^verbatim>\<open>console.error\<close>) is returned next to the result as a list of events, in the
  order in which they happen.
\<close>

subsection \<open>JavaScript strings\<close>

text \<open>
  A JavaScript string is a sequence of UTF-16 code units. \<open>str\<close> embeds an ASCII literal
  of the source; \<^verbatim>\<open>\n\<close> in a source literal is written \<open>\<newline>\<close>.
\<close>

type_synonym js_string = "16 word list"

definition str :: "string \<Rightarrow> js_string" where
  "str s = map of_char s"

text \<open>
  \<^verbatim>\<open>String.prototype.trim\<close> removes, at both ends, the code units that ECMAScript calls
  WhiteSpace (TAB, VT, FF, ZWNBSP and the space separators of Unicode) or LineTerminator
  (LF, CR, LS, PS).
\<close>

definition is_js_whitespace :: "16 word \<Rightarrow> bool" where
  "is_js_whitespace c =
     (c = 0x0009 \<or> c = 0x000A \<or> c = 0x000B \<or> c = 0x000C \<or> c = 0x000D \<or> c = 0x0020
      \<or> c = 0x00A0 \<or> c = 0x1680 \<or> (0x2000 \<le> c \<and> c \<le> 0x200A) \<or> c = 0x2028
      \<or> c = 0x2029 \<or> c = 0x202F \<or> c = 0x205F \<or> c = 0x3000 \<or> c = 0xFEFF)"

definition trim :: "js_string \<Rightarrow> js_string" where
  "trim s = rev (dropWhile is_js_whitespace (rev (dropWhile is_js_whitespace s)))"

text \<open>
  The decimal rendering of a non-negative integer, as a template literal produces it for
  \<^verbatim>\<open>index + 1\<close> (array indices are far below the \<open>10\<^sup>2\<^sup>1\<close> from which JavaScript
  switches to exponent notation).
\<close>

definition digit :: "nat \<Rightarrow> 16 word" where
  "digit d = of_nat (48 + d)"

function number_toString :: "nat \<Rightarrow> js_string" where
  "number_toString n =
     (if n < 10 then [digit n] else number_toString (n div 10) @ [digit (n mod 10)])"
  by pat_completeness auto
termination
  by (relation "measure (\<lambda>n. n)") auto

declare number_toString.simps [simp del]

text \<open>\<^verbatim>\<open>Array.prototype.join\<close> with a separator.\<close>

fun join :: "js_string \<Rightarrow> js_string list \<Rightarrow> js_string" where
  "join sep [] = []"
| "join sep [x] = x"
| "join sep (x # y # ys) = x @ sep @ join sep (y # ys)"

text \<open>
  Values of type \<^verbatim>\<open>string | null | undefined\<close> are \<open>js_string option\<close>, \<open>None\<close>
  standing for \<^verbatim>\<open>null\<close> and \<^verbatim>\<open>undefined\<close>. Such a value is truthy when it is a
  non-empty string; in a template literal \<^verbatim>\<open>undefined\<close> is rendered by its name.
\<close>

definition truthy :: "js_string option \<Rightarrow> bool" where
  "truthy v = (case v of None \<Rightarrow> False | Some s \<Rightarrow> s \<noteq> [])"

definition template :: "js_string option \<Rightarrow> js_string" where
  "template v = (case v of None \<Rightarrow> str ''undefined'' | Some s \<Rightarrow> s)"

text \<open>\<^verbatim>\<open>a || b\<close> on two strings: \<open>a\<close> unless it is the empty string.\<close>

definition or_else :: "js_string \<Rightarrow> js_string \<Rightarrow> js_string" where
  "or_else a b = (if a \<noteq> [] then a else b)"

subsection \<open>Data model\<close>

record SearchResult =
  title :: js_string
  href :: js_string
  body :: js_string

text \<open>
  The declared type of \<^verbatim>\<open>query\<close> is \<^verbatim>\<open>string\<close>, but the parameter object comes from
  the caller unchecked (the unit test passes \<^verbatim>\<open>undefined\<close>), so the field is optional.
\<close>

record DuckDuckGoSearchToolParams =
  query :: "js_string option"

text \<open>The field \<^verbatim>\<open>sources?\<close> is \<open>None\<close> when the returned object has no such field.\<close>

record DuckDuckGoSearchToolResult =
  llmContent :: js_string
  returnDisplay :: js_string
  sources :: "SearchResult list option"

record AbortSignal =
  aborted :: bool

text \<open>
  The argument object of \<^verbatim>\<open>DDGS.text\<close>; its field \<^verbatim>\<open>keywords\<close> is \<open>keywords'\<close> here,
  the plain name being reserved in theory headers.
\<close>

record ddgs_request =
  keywords' :: "js_string option"
  safesearch :: js_string
  maxResults :: nat

text \<open>A thrown \<^verbatim>\<open>Error\<close> object with its message.\<close>

datatype js_error = Error (message: js_string)

text \<open>
  How the promise of \<^verbatim>\<open>DDGS.text\<close> settles: rejected with an error, or resolved with a
  value that is an array of results or, at run time, \<^verbatim>\<open>null\<close>/\<^verbatim>\<open>undefined\<close>.
\<close>

datatype settlement = Rejected js_error | Resolved "SearchResult list option"

datatype event =
  DdgsText ddgs_request
| ConsoleError js_string js_error

text \<open>
  Modelled from the spec: \<^verbatim>\<open>getErrorMessage\<close> of \<^verbatim>\<open>../utils/errors.js\<close> is imported
  by the source but not part of it. The spec calls what it returns the human-readable
  error message of the failure: for an \<^verbatim>\<open>Error\<close> object, its message.
\<close>

definition getErrorMessage :: "js_error \<Rightarrow> js_string" where
  "getErrorMessage e = message e"

subsection \<open>validateToolParams\<close>

definition validateToolParams ::
  "(DuckDuckGoSearchToolParams \<Rightarrow> js_string option) \<Rightarrow> DuckDuckGoSearchToolParams
     \<Rightarrow> js_string option" where
  "validateToolParams sv params =
     (let errors = sv params in
      if truthy errors then errors
      else if (case query params of None \<Rightarrow> True | Some q \<Rightarrow> q = [] \<or> trim q = [])
        then Some (str ''The 'query' parameter cannot be empty.'')
      else None)"

subsection \<open>execute\<close>

text \<open>
  One round of the \<^verbatim>\<open>forEach\<close> callback: it appends the block of \<open>result\<close> to
  \<^verbatim>\<open>formattedResults\<close> and pushes its line onto \<^verbatim>\<open>sourceListFormatted\<close>.
\<close>

definition forEach_callback ::
  "js_string \<times> js_string list \<Rightarrow> SearchResult \<Rightarrow> nat \<Rightarrow> js_string \<times> js_string list" where
  "forEach_callback acc result index =
     (let formattedResults = fst acc;
          sourceListFormatted = snd acc;
          title' = or_else (title result) (str ''Untitled'');
          url = or_else (href result) (str ''No URL'');
          snippet = or_else (body result) (str ''No description'')
      in (formattedResults
            @ (number_toString (index + 1) @ str ''. '' @ title' @ str ''\<newline>'')
            @ (str ''   URL: '' @ url @ str ''\<newline>'')
            @ (str ''   Snippet: '' @ snippet @ str ''\<newline>\<newline>''),
          sourceListFormatted
            @ [str ''['' @ number_toString (index + 1) @ str ''] '' @ title'
                 @ str '' ('' @ url @ str '')'']))"

fun forEach :: "SearchResult list \<Rightarrow> nat \<Rightarrow> js_string \<times> js_string list
    \<Rightarrow> js_string \<times> js_string list" where
  "forEach [] index acc = acc"
| "forEach (result # rest) index acc = forEach rest (index + 1) (forEach_callback acc result index)"

definition no_results :: "DuckDuckGoSearchToolParams \<Rightarrow> DuckDuckGoSearchToolResult" where
  "no_results params =
     \<lparr>llmContent = str ''No search results found for query: \"'' @ template (query params)
        @ str ''\"'',
      returnDisplay = str ''No information found.'',
      sources = None\<rparr>"

definition format_results ::
  "DuckDuckGoSearchToolParams \<Rightarrow> SearchResult list \<Rightarrow> DuckDuckGoSearchToolResult" where
  "format_results params results =
     (let header = str ''DuckDuckGo search results for \"'' @ template (query params)
            @ str ''\":\<newline>\<newline>'';
          (formattedResults, sourceListFormatted) = forEach results 0 (header, [])
      in \<lparr>llmContent = formattedResults @ str ''\<newline>Sources:\<newline>''
              @ join (str ''\<newline>'') sourceListFormatted,
           returnDisplay = str ''Search results for \"'' @ template (query params)
              @ str ''\" returned.'',
           sources = Some results\<rparr>)"

text \<open>
  The body of the \<^verbatim>\<open>try\<close> block: \<open>Inl\<close> is a thrown error (the \<^verbatim>\<open>throw\<close> of the
  abort check, or the rejection of the awaited provider promise), \<open>Inr\<close> a returned result.
\<close>

definition try_block ::
  "(ddgs_request \<Rightarrow> settlement) \<Rightarrow> DuckDuckGoSearchToolParams \<Rightarrow> AbortSignal
     \<Rightarrow> (js_error + DuckDuckGoSearchToolResult) \<times> event list" where
  "try_block ddgs params signal =
     (if aborted signal then (Inl (Error (str ''Search was cancelled'')), [])
      else
        let request = \<lparr>keywords' = query params, safesearch = str ''off'', maxResults = 5\<rparr>
        in case ddgs request of
             Rejected e \<Rightarrow> (Inl e, [DdgsText request])
           | Resolved results \<Rightarrow>
               (case results of
                  None \<Rightarrow> (Inr (no_results params), [DdgsText request])
                | Some rs \<Rightarrow>
                    if length rs = 0 then (Inr (no_results params), [DdgsText request])
                    else (Inr (format_results params rs), [DdgsText request])))"

text \<open>The \<^verbatim>\<open>catch\<close> clause.\<close>

definition catch_block ::
  "DuckDuckGoSearchToolParams \<Rightarrow> js_error \<Rightarrow> DuckDuckGoSearchToolResult \<times> event list" where
  "catch_block params error =
     (let errorMessage = str ''Error during DuckDuckGo web search for query \"''
            @ template (query params) @ str ''\": '' @ getErrorMessage error
      in (\<lparr>llmContent = str ''Error: '' @ errorMessage,
           returnDisplay = str ''Error performing DuckDuckGo web search.'',
           sources = None\<rparr>,
          [ConsoleError errorMessage error]))"

definition try_catch ::
  "(ddgs_request \<Rightarrow> settlement) \<Rightarrow> DuckDuckGoSearchToolParams \<Rightarrow> AbortSignal
     \<Rightarrow> DuckDuckGoSearchToolResult \<times> event list" where
  "try_catch ddgs params signal =
     (case try_block ddgs params signal of
        (Inr result, evs) \<Rightarrow> (result, evs)
      | (Inl error, evs) \<Rightarrow>
          (let (result, evs') = catch_block params error in (result, evs @ evs')))"

definition execute ::
  "(DuckDuckGoSearchToolParams \<Rightarrow> js_string option) \<Rightarrow> (ddgs_request \<Rightarrow> settlement)
     \<Rightarrow> DuckDuckGoSearchToolParams \<Rightarrow> AbortSignal \<Rightarrow> DuckDuckGoSearchToolResult \<times> event list" where
  "execute sv ddgs params signal =
     (case validateToolParams sv params of
        None \<Rightarrow> try_catch ddgs params signal
      | Some validationError \<Rightarrow>
          if validationError \<noteq> [] then
            (\<lparr>llmContent = str ''Error: Invalid parameters provided. Reason: '' @ validationError,
              returnDisplay = validationError,
              sources = None\<rparr>, [])
          else try_catch ddgs params signal)"

subsection \<open>Reading the list of events\<close>

text \<open>The requests sent to the provider, in order.\<close>

fun provider_calls :: "event list \<Rightarrow> ddgs_request list" where
  "provider_calls [] = []"
| "provider_calls (DdgsText request # evs) = request # provider_calls evs"
| "provider_calls (ConsoleError msg e # evs) = provider_calls evs"

subsection \<open>Stand-ins for the collaborators\<close>

text \<open>
  A schema check that asks for the required field \<^verbatim>\<open>query\<close>, and providers that
  settle in a fixed way whatever the request, as the mocks of the unit tests do, with the
  two results of those tests.
\<close>

definition required_query :: "DuckDuckGoSearchToolParams \<Rightarrow> js_string option" where
  "required_query params =
     (case query params of
        None \<Rightarrow> Some (str ''params must have required property query'')
      | Some q \<Rightarrow> None)"

definition resolves_with :: "SearchResult list option \<Rightarrow> ddgs_request \<Rightarrow> settlement" where
  "resolves_with v request = Resolved v"

definition rejects_with :: "js_error \<Rightarrow> ddgs_request \<Rightarrow> settlement" where
  "rejects_with e request = Rejected e"

text \<open>A provider that resolves to \<open>v\<close> for the request \<open>expected\<close> and rejects any other.\<close>

definition answers_only ::
  "ddgs_request \<Rightarrow> SearchResult list option \<Rightarrow> ddgs_request \<Rightarrow> settlement" where
  "answers_only expected v request =
     (if request = expected then Resolved v else Rejected (Error (str ''unexpected request'')))"

definition test_results :: "SearchResult list" where
  "test_results =
     [\<lparr>title = str ''Test Result 1'', href = str ''https://example.com/1'',
       body = str ''This is a test result snippet 1''\<rparr>,
      \<lparr>title = str ''Test Result 2'', href = str ''https://example.com/2'',
       body = str ''This is a test result snippet 2''\<rparr>]"

subsection \<open>The text of a result list, stated directly\<close>

text \<open>
  The content that \<^verbatim>\<open>execute\<close> is to return for a non-empty result list, written as
  one expression instead of a loop: the header line, one block per result numbered from
  \<open>1\<close>, the line \<^verbatim>\<open>Sources:\<close> and one source line per result, joined by line feeds.
  The source line is an argument, so that the wording of the specification and the
  behaviour of the code can be compared.
\<close>

definition result_block :: "nat \<Rightarrow> SearchResult \<Rightarrow> js_string" where
  "result_block i r =
     number_toString i @ str ''. '' @ or_else (title r) (str ''Untitled'') @ str ''\<newline>''
     @ str ''   URL: '' @ or_else (href r) (str ''No URL'') @ str ''\<newline>''
     @ str ''   Snippet: '' @ or_else (body r) (str ''No description'') @ str ''\<newline>\<newline>''"

definition listing ::
  "(nat \<Rightarrow> SearchResult \<Rightarrow> js_string) \<Rightarrow> js_string \<Rightarrow> SearchResult list \<Rightarrow> js_string" where
  "listing line q rs =
     str ''DuckDuckGo search results for \"'' @ q @ str ''\":\<newline>\<newline>''
     @ concat (map (\<lambda>(i, r). result_block i r) (enumerate 1 rs))
     @ str ''\<newline>Sources:\<newline>''
     @ join (str ''\<newline>'') (map (\<lambda>(i, r). line i r) (enumerate 1 rs))"

text \<open>
  The source line in the specification's words, \<^verbatim>\<open>[<i>] <title> (<href>)\<close>: the title
  and the address of the result as the provider gave them.
\<close>

definition claimed_source_line :: "nat \<Rightarrow> SearchResult \<Rightarrow> js_string" where
  "claimed_source_line i r =
     str ''['' @ number_toString i @ str ''] '' @ title r @ str '' ('' @ href r @ str '')''"

text \<open>
  The source line with the fallbacks of the block: \<^verbatim>\<open>Untitled\<close> for an empty title and
  \<^verbatim>\<open>No URL\<close> for an empty address.
\<close>

definition source_line :: "nat \<Rightarrow> SearchResult \<Rightarrow> js_string" where
  "source_line i r =
     str ''['' @ number_toString i @ str ''] '' @ or_else (title r) (str ''Untitled'')
     @ str '' ('' @ or_else (href r) (str ''No URL'') @ str '')''"

section \<open>Properties\<close>

subsection \<open>Strings\<close>

text \<open>Trimming leaves nothing exactly when every code unit is white space.\<close>

lemma trim_eq_Nil_iff: "trim s = [] \<longleftrightarrow> (\<forall>c\<in>set s. is_js_whitespace c)"
proof
  assume "trim s = []"
  then have all: "\<forall>c\<in>set (dropWhile is_js_whitespace s). is_js_whitespace c"
    by (simp add: trim_def)
  have "dropWhile is_js_whitespace s = []"
  proof (rule ccontr)
    assume ne: "dropWhile is_js_whitespace s \<noteq> []"
    then have "\<not> is_js_whitespace (hd (dropWhile is_js_whitespace s))"
      by (rule hd_dropWhile)
    moreover from ne all have "is_js_whitespace (hd (dropWhile is_js_whitespace s))"
      by simp
    ultimately show False by contradiction
  qed
  then show "\<forall>c\<in>set s. is_js_whitespace c" by simp
next
  assume "\<forall>c\<in>set s. is_js_whitespace c"
  then have "\<forall>c\<in>set (dropWhile is_js_whitespace s). is_js_whitespace c"
    by (blast dest: set_dropWhileD)
  then show "trim s = []" by (simp add: trim_def)
qed

subsection \<open>Validation\<close>

text \<open>A message returned by the validator is never the empty string.\<close>

lemma validateToolParams_Some_nonempty:
  "validateToolParams sv params = Some m \<Longrightarrow> m \<noteq> []"
  by (auto simp: validateToolParams_def Let_def truthy_def str_def
      split: if_splits option.splits)

text \<open>Parameters are valid exactly when the schema check passes and the query, trimmed, is
  not empty.\<close>

lemma validateToolParams_None_iff:
  "validateToolParams sv params = None \<longleftrightarrow>
     \<not> truthy (sv params) \<and> (\<exists>q. query params = Some q \<and> trim q \<noteq> [])"
  by (auto simp: validateToolParams_def Let_def truthy_def trim_def
      split: if_splits option.splits)

text \<open>
  Claim C4. Let the parameter object pass the structural schema check (the value that
  \<^verbatim>\<open>SchemaValidator.validate\<close> returns is not truthy) and let its query be the string \<open>q\<close>.
  If \<open>q\<close> is not empty after trimming, \<^verbatim>\<open>validateToolParams\<close> returns \<^verbatim>\<open>null\<close>; if
  \<open>q\<close> is the empty string or consists of white space only, it returns exactly
  \<^verbatim>\<open>The 'query' parameter cannot be empty.\<close>
\<close>

theorem validateToolParams_query:
  "\<not> truthy (sv params) \<Longrightarrow> query params = Some q \<Longrightarrow>
     (trim q \<noteq> [] \<longrightarrow> validateToolParams sv params = None) \<and>
     (q = [] \<or> (\<forall>c\<in>set q. is_js_whitespace c) \<longrightarrow>
        validateToolParams sv params = Some (str ''The 'query' parameter cannot be empty.''))"
  using trim_eq_Nil_iff [of q]
  by (auto simp: validateToolParams_def Let_def)

text \<open>The query \<^verbatim>\<open>test\<close> of the unit test, and a query of a space, a line feed and a
  space.\<close>

theorem validateToolParams_query_witness:
  "\<not> truthy (required_query \<lparr>query = Some (str ''test'')\<rparr>)
   \<and> trim (str ''test'') \<noteq> []
   \<and> validateToolParams required_query \<lparr>query = Some (str ''test'')\<rparr> = None
   \<and> \<not> truthy (required_query \<lparr>query = Some (str '' \<newline> '')\<rparr>)
   \<and> list_all is_js_whitespace (str '' \<newline> '')
   \<and> validateToolParams required_query \<lparr>query = Some (str '' \<newline> '')\<rparr>
       = Some (str ''The 'query' parameter cannot be empty.'')"
proof -
  have a1: "\<not> truthy (required_query \<lparr>query = Some (str ''test'')\<rparr>)"
    by (simp add: required_query_def truthy_def)
  have a2: "trim (str ''test'') \<noteq> []"
    by (simp add: trim_def str_def is_js_whitespace_def)
  have b1: "\<not> truthy (required_query \<lparr>query = Some (str '' \<newline> '')\<rparr>)"
    by (simp add: required_query_def truthy_def)
  have b2: "list_all is_js_whitespace (str '' \<newline> '')"
    by (simp add: str_def is_js_whitespace_def)
  from validateToolParams_query
         [of required_query "\<lparr>query = Some (str ''test'')\<rparr>" "str ''test''"] a1 a2
  have a3: "validateToolParams required_query \<lparr>query = Some (str ''test'')\<rparr> = None"
    by simp
  from validateToolParams_query
         [of required_query "\<lparr>query = Some (str '' \<newline> '')\<rparr>" "str '' \<newline> ''"] b1 b2
  have b3: "validateToolParams required_query \<lparr>query = Some (str '' \<newline> '')\<rparr>
       = Some (str ''The 'query' parameter cannot be empty.'')"
    by (simp add: list_all_iff)
  from a1 a2 a3 b1 b2 b3 show ?thesis by blast
qed

subsection \<open>Literals and numbers\<close>

lemma error_prefix:
  "str ''Error: Error during DuckDuckGo web search for query \"'' =
     str ''Error: '' @ str ''Error during DuckDuckGo web search for query \"''"
  by (simp add: str_def)

lemma cancelled_suffix:
  "str ''\": Search was cancelled'' = str ''\": '' @ str ''Search was cancelled''"
  by (simp add: str_def)

lemma number_toString_small:
  "number_toString (Suc 0) = str ''1''" "number_toString (Suc (Suc 0)) = str ''2''"
  by (simp_all add: number_toString.simps digit_def str_def)

subsection \<open>The stand-ins\<close>

lemma valid_example:
  "trim q \<noteq> [] \<Longrightarrow> validateToolParams required_query \<lparr>query = Some q\<rparr> = None"
  by (simp add: validateToolParams_None_iff required_query_def truthy_def)

lemma trim_examples:
  "trim (str ''test search'') \<noteq> []"
  "trim (str ''empty search'') \<noteq> []"
  "trim (str ''error search'') \<noteq> []"
  by (simp_all add: trim_def str_def is_js_whitespace_def)

lemma empty_query_invalid:
  "validateToolParams required_query \<lparr>query = Some []\<rparr> =
     Some (str ''The 'query' parameter cannot be empty.'')"
  by (simp add: validateToolParams_def required_query_def truthy_def)

subsection \<open>The paths of execute\<close>

text \<open>With valid parameters \<^verbatim>\<open>execute\<close> is its \<^verbatim>\<open>try\<close> statement.\<close>

lemma execute_valid:
  "validateToolParams sv params = None \<Longrightarrow>
     execute sv ddgs params signal = try_catch ddgs params signal"
  by (simp add: execute_def)

text \<open>
  Claim C6. When the parameters fail validation, \<^verbatim>\<open>validateToolParams\<close> returning the
  message \<open>m\<close>, \<^verbatim>\<open>execute\<close> returns at once: \<^verbatim>\<open>llmContent\<close> is
  \<^verbatim>\<open>Error: Invalid parameters provided. Reason: \<close> followed by \<open>m\<close>, \<^verbatim>\<open>returnDisplay\<close>
  is \<open>m\<close> itself, and nothing has happened on the way: the provider is not called.
\<close>

theorem execute_invalid_params:
  "validateToolParams sv params = Some m \<Longrightarrow>
     execute sv ddgs params signal =
       (\<lparr>llmContent = str ''Error: Invalid parameters provided. Reason: '' @ m,
         returnDisplay = m,
         sources = None\<rparr>, [])
     \<and> provider_calls (snd (execute sv ddgs params signal)) = []"
  using validateToolParams_Some_nonempty [of sv params m]
  by (simp add: execute_def)

text \<open>The empty query of the unit test, with a provider that would have answered.\<close>

theorem execute_invalid_params_witness:
  "validateToolParams required_query \<lparr>query = Some []\<rparr> =
     Some (str ''The 'query' parameter cannot be empty.'')
   \<and> execute required_query (resolves_with (Some test_results)) \<lparr>query = Some []\<rparr>
         \<lparr>aborted = False\<rparr> =
       (\<lparr>llmContent = str ''Error: Invalid parameters provided. Reason: The 'query' parameter cannot be empty.'',
         returnDisplay = str ''The 'query' parameter cannot be empty.'',
         sources = None\<rparr>, [])
   \<and> provider_calls (snd (execute required_query (resolves_with (Some test_results))
         \<lparr>query = Some []\<rparr> \<lparr>aborted = False\<rparr>)) = []"
proof -
  have whole: "str ''Error: Invalid parameters provided. Reason: ''
      @ str ''The 'query' parameter cannot be empty.''
      = str ''Error: Invalid parameters provided. Reason: The 'query' parameter cannot be empty.''"
    by (simp add: str_def)
  from execute_invalid_params [OF empty_query_invalid,
         of "resolves_with (Some test_results)" "\<lparr>aborted = False\<rparr>"]
  show ?thesis
    by (simp add: empty_query_invalid whole)
qed

text \<open>
  Claim C5. With valid parameters and a signal that is already aborted at entry, the
  provider is not called and the invocation ends in the \<^verbatim>\<open>catch\<close> clause: the result
  has the shape of a provider failure (\<^verbatim>\<open>returnDisplay\<close> is
  \<^verbatim>\<open>Error performing DuckDuckGo web search.\<close>), and it is the very result of a provider that
  fails with the error \<^verbatim>\<open>Search was cancelled\<close>.
\<close>

theorem execute_aborted:
  assumes "validateToolParams sv params = None"
    and "query params = Some q"
    and "aborted signal"
  shows "execute sv ddgs params signal =
      (\<lparr>llmContent = str ''Error: Error during DuckDuckGo web search for query \"'' @ q
           @ str ''\": Search was cancelled'',
        returnDisplay = str ''Error performing DuckDuckGo web search.'',
        sources = None\<rparr>,
       [ConsoleError (str ''Error during DuckDuckGo web search for query \"'' @ q
           @ str ''\": Search was cancelled'') (Error (str ''Search was cancelled''))])
     \<and> provider_calls (snd (execute sv ddgs params signal)) = []
     \<and> fst (execute sv ddgs params signal) =
         fst (execute sv (rejects_with (Error (str ''Search was cancelled''))) params
                (signal\<lparr>aborted := False\<rparr>))"
  using assms
  by (simp add: execute_valid try_catch_def try_block_def catch_block_def template_def
      getErrorMessage_def Let_def error_prefix cancelled_suffix rejects_with_def)

theorem execute_aborted_witness:
  "validateToolParams required_query \<lparr>query = Some (str ''test search'')\<rparr> = None
   \<and> aborted \<lparr>aborted = True\<rparr>
   \<and> execute required_query (resolves_with (Some test_results))
         \<lparr>query = Some (str ''test search'')\<rparr> \<lparr>aborted = True\<rparr> =
       (\<lparr>llmContent = str ''Error: Error during DuckDuckGo web search for query \"test search\": Search was cancelled'',
         returnDisplay = str ''Error performing DuckDuckGo web search.'',
         sources = None\<rparr>,
        [ConsoleError (str ''Error during DuckDuckGo web search for query \"test search\": Search was cancelled'')
           (Error (str ''Search was cancelled''))])
   \<and> provider_calls (snd (execute required_query (resolves_with (Some test_results))
         \<lparr>query = Some (str ''test search'')\<rparr> \<lparr>aborted = True\<rparr>)) = []"
proof -
  have valid: "validateToolParams required_query \<lparr>query = Some (str ''test search'')\<rparr> = None"
    by (simp add: valid_example trim_examples)
  have gone: "aborted \<lparr>aborted = True\<rparr>"
    by simp
  have whole:
    "str ''Error: Error during DuckDuckGo web search for query \"'' @ str ''test search''
       @ str ''\": Search was cancelled''
     = str ''Error: Error during DuckDuckGo web search for query \"test search\": Search was cancelled''"
    "str ''Error during DuckDuckGo web search for query \"'' @ str ''test search''
       @ str ''\": Search was cancelled''
     = str ''Error during DuckDuckGo web search for query \"test search\": Search was cancelled''"
    by (simp_all add: str_def)
  from execute_aborted [of required_query "\<lparr>query = Some (str ''test search'')\<rparr>"
         "str ''test search''" "\<lparr>aborted = True\<rparr>" "resolves_with (Some test_results)"]
       valid gone
  have "execute required_query (resolves_with (Some test_results))
         \<lparr>query = Some (str ''test search'')\<rparr> \<lparr>aborted = True\<rparr> =
       (\<lparr>llmContent = str ''Error: Error during DuckDuckGo web search for query \"''
           @ str ''test search'' @ str ''\": Search was cancelled'',
         returnDisplay = str ''Error performing DuckDuckGo web search.'',
         sources = None\<rparr>,
        [ConsoleError (str ''Error during DuckDuckGo web search for query \"''
           @ str ''test search'' @ str ''\": Search was cancelled'')
           (Error (str ''Search was cancelled''))])
     \<and> provider_calls (snd (execute required_query (resolves_with (Some test_results))
         \<lparr>query = Some (str ''test search'')\<rparr> \<lparr>aborted = True\<rparr>)) = []"
    by simp
  with valid gone show ?thesis
    by (simp add: whole)
qed

text \<open>
  Claim C7. An invocation that reaches the provider call (valid parameters, signal not
  aborted) calls the provider exactly once, with \<^verbatim>\<open>keywords\<close> the query string,
  \<^verbatim>\<open>safesearch\<close> \<^verbatim>\<open>off\<close> and \<^verbatim>\<open>maxResults\<close> 5, whatever the query and whatever
  the provider answers.
\<close>

theorem provider_called_once:
  assumes "validateToolParams sv params = None"
    and "query params = Some q"
    and "\<not> aborted signal"
  shows "provider_calls (snd (execute sv ddgs params signal)) =
      [\<lparr>keywords' = Some q, safesearch = str ''off'', maxResults = 5\<rparr>]"
  using assms
  by (simp add: execute_valid try_catch_def try_block_def catch_block_def Let_def
      split: settlement.split option.split)

theorem provider_called_once_witness:
  "validateToolParams required_query \<lparr>query = Some (str ''test search'')\<rparr> = None
   \<and> \<not> aborted \<lparr>aborted = False\<rparr>
   \<and> provider_calls (snd (execute required_query (resolves_with (Some test_results))
         \<lparr>query = Some (str ''test search'')\<rparr> \<lparr>aborted = False\<rparr>)) =
       [\<lparr>keywords' = Some (str ''test search''), safesearch = str ''off'', maxResults = 5\<rparr>]"
proof -
  have valid: "validateToolParams required_query \<lparr>query = Some (str ''test search'')\<rparr> = None"
    by (simp add: valid_example trim_examples)
  have live: "\<not> aborted \<lparr>aborted = False\<rparr>"
    by simp
  from provider_called_once [of required_query "\<lparr>query = Some (str ''test search'')\<rparr>"
         "str ''test search''" "\<lparr>aborted = False\<rparr>" "resolves_with (Some test_results)"]
       valid live
  have "provider_calls (snd (execute required_query (resolves_with (Some test_results))
         \<lparr>query = Some (str ''test search'')\<rparr> \<lparr>aborted = False\<rparr>)) =
       [\<lparr>keywords' = Some (str ''test search''), safesearch = str ''off'', maxResults = 5\<rparr>]"
    by simp
  with valid live show ?thesis
    by (simp only: simp_thms)
qed

text \<open>
  Claim C3. With valid parameters, when the provider call fails with an error \<open>e\<close>, the
  failure is thrown inside the \<^verbatim>\<open>try\<close> block only: \<^verbatim>\<open>execute\<close> returns a result, with
  \<^verbatim>\<open>llmContent\<close> equal to
  \<^verbatim>\<open>Error: Error during DuckDuckGo web search for query "<query>": \<close> followed by the
  message of \<open>e\<close>, and \<^verbatim>\<open>returnDisplay\<close> equal to
  \<^verbatim>\<open>Error performing DuckDuckGo web search.\<close>
\<close>

theorem execute_provider_failure:
  assumes "validateToolParams sv params = None"
    and "query params = Some q"
    and "\<not> aborted signal"
    and "ddgs \<lparr>keywords' = Some q, safesearch = str ''off'', maxResults = 5\<rparr> = Rejected e"
  shows "fst (try_block ddgs params signal) = Inl e
     \<and> execute sv ddgs params signal =
      (\<lparr>llmContent = str ''Error: Error during DuckDuckGo web search for query \"'' @ q
           @ str ''\": '' @ message e,
        returnDisplay = str ''Error performing DuckDuckGo web search.'',
        sources = None\<rparr>,
       [DdgsText \<lparr>keywords' = Some q, safesearch = str ''off'', maxResults = 5\<rparr>,
        ConsoleError (str ''Error during DuckDuckGo web search for query \"'' @ q
           @ str ''\": '' @ message e) e])"
  using assms
  by (simp add: execute_valid try_catch_def try_block_def catch_block_def template_def
      getErrorMessage_def Let_def error_prefix)

text \<open>The failing provider of the unit test.\<close>

theorem execute_provider_failure_witness:
  "validateToolParams required_query \<lparr>query = Some (str ''error search'')\<rparr> = None
   \<and> \<not> aborted \<lparr>aborted = False\<rparr>
   \<and> execute required_query (rejects_with (Error (str ''Network error'')))
         \<lparr>query = Some (str ''error search'')\<rparr> \<lparr>aborted = False\<rparr> =
       (\<lparr>llmContent = str ''Error: Error during DuckDuckGo web search for query \"error search\": Network error'',
         returnDisplay = str ''Error performing DuckDuckGo web search.'',
         sources = None\<rparr>,
        [DdgsText \<lparr>keywords' = Some (str ''error search''), safesearch = str ''off'',
           maxResults = 5\<rparr>,
         ConsoleError (str ''Error during DuckDuckGo web search for query \"error search\": Network error'')
           (Error (str ''Network error''))])"
proof -
  have valid: "validateToolParams required_query \<lparr>query = Some (str ''error search'')\<rparr> = None"
    by (simp add: valid_example trim_examples)
  have live: "\<not> aborted \<lparr>aborted = False\<rparr>"
    by simp
  have rejected: "rejects_with (Error (str ''Network error''))
      \<lparr>keywords' = Some (str ''error search''), safesearch = str ''off'', maxResults = 5\<rparr>
      = Rejected (Error (str ''Network error''))"
    by (simp add: rejects_with_def)
  have whole:
    "str ''Error: Error during DuckDuckGo web search for query \"'' @ str ''error search''
       @ str ''\": '' @ str ''Network error''
     = str ''Error: Error during DuckDuckGo web search for query \"error search\": Network error''"
    "str ''Error during DuckDuckGo web search for query \"'' @ str ''error search''
       @ str ''\": '' @ str ''Network error''
     = str ''Error during DuckDuckGo web search for query \"error search\": Network error''"
    by (simp_all add: str_def)
  from execute_provider_failure [of required_query "\<lparr>query = Some (str ''error search'')\<rparr>"
         "str ''error search''" "\<lparr>aborted = False\<rparr>"
         "rejects_with (Error (str ''Network error''))" "Error (str ''Network error'')"]
       valid live rejected
  have "execute required_query (rejects_with (Error (str ''Network error'')))
         \<lparr>query = Some (str ''error search'')\<rparr> \<lparr>aborted = False\<rparr> =
       (\<lparr>llmContent = str ''Error: Error during DuckDuckGo web search for query \"''
            @ str ''error search'' @ str ''\": '' @ str ''Network error'',
         returnDisplay = str ''Error performing DuckDuckGo web search.'',
         sources = None\<rparr>,
        [DdgsText \<lparr>keywords' = Some (str ''error search''), safesearch = str ''off'',
           maxResults = 5\<rparr>,
         ConsoleError (str ''Error during DuckDuckGo web search for query \"''
            @ str ''error search'' @ str ''\": '' @ str ''Network error'')
           (Error (str ''Network error''))])"
    by simp
  with valid live show ?thesis
    by (simp add: whole)
qed

text \<open>
  Claim C8. With valid parameters, when the provider call succeeds with an empty list,
  \<^verbatim>\<open>llmContent\<close> is exactly \<^verbatim>\<open>No search results found for query: "<query>"\<close>,
  \<^verbatim>\<open>returnDisplay\<close> is exactly \<^verbatim>\<open>No information found.\<close>, and the result has no
  \<^verbatim>\<open>sources\<close> field.
\<close>

theorem execute_no_results:
  assumes "validateToolParams sv params = None"
    and "query params = Some q"
    and "\<not> aborted signal"
    and "ddgs \<lparr>keywords' = Some q, safesearch = str ''off'', maxResults = 5\<rparr> = Resolved (Some [])"
  shows "execute sv ddgs params signal =
      (\<lparr>llmContent = str ''No search results found for query: \"'' @ q @ str ''\"'',
        returnDisplay = str ''No information found.'',
        sources = None\<rparr>,
       [DdgsText \<lparr>keywords' = Some q, safesearch = str ''off'', maxResults = 5\<rparr>])"
  using assms
  by (simp add: execute_valid try_catch_def try_block_def no_results_def template_def)

text \<open>The empty answer of the unit test.\<close>

theorem execute_no_results_witness:
  "validateToolParams required_query \<lparr>query = Some (str ''empty search'')\<rparr> = None
   \<and> \<not> aborted \<lparr>aborted = False\<rparr>
   \<and> execute required_query (resolves_with (Some []))
         \<lparr>query = Some (str ''empty search'')\<rparr> \<lparr>aborted = False\<rparr> =
       (\<lparr>llmContent = str ''No search results found for query: \"empty search\"'',
         returnDisplay = str ''No information found.'',
         sources = None\<rparr>,
        [DdgsText \<lparr>keywords' = Some (str ''empty search''), safesearch = str ''off'',
           maxResults = 5\<rparr>])"
proof -
  have valid: "validateToolParams required_query \<lparr>query = Some (str ''empty search'')\<rparr> = None"
    by (simp add: valid_example trim_examples)
  have live: "\<not> aborted \<lparr>aborted = False\<rparr>"
    by simp
  have resolved: "resolves_with (Some [])
      \<lparr>keywords' = Some (str ''empty search''), safesearch = str ''off'', maxResults = 5\<rparr>
      = Resolved (Some [])"
    by (simp add: resolves_with_def)
  have whole: "str ''No search results found for query: \"'' @ str ''empty search'' @ str ''\"''
      = str ''No search results found for query: \"empty search\"''"
    by (simp add: str_def)
  from execute_no_results [of required_query "\<lparr>query = Some (str ''empty search'')\<rparr>"
         "str ''empty search''" "\<lparr>aborted = False\<rparr>" "resolves_with (Some [])"]
       valid live resolved
  have "execute required_query (resolves_with (Some []))
         \<lparr>query = Some (str ''empty search'')\<rparr> \<lparr>aborted = False\<rparr> =
       (\<lparr>llmContent = str ''No search results found for query: \"'' @ str ''empty search''
            @ str ''\"'',
         returnDisplay = str ''No information found.'',
         sources = None\<rparr>,
        [DdgsText \<lparr>keywords' = Some (str ''empty search''), safesearch = str ''off'',
           maxResults = 5\<rparr>])"
    by simp
  with valid live show ?thesis
    by (simp add: whole)
qed

text \<open>
  Claim C10. With valid parameters, when the provider promise resolves to \<^verbatim>\<open>null\<close> or
  \<^verbatim>\<open>undefined\<close> instead of a list, \<^verbatim>\<open>execute\<close> returns what it returns for an empty
  list: \<^verbatim>\<open>llmContent\<close> \<^verbatim>\<open>No search results found for query: "<query>"\<close>,
  \<^verbatim>\<open>returnDisplay\<close> \<^verbatim>\<open>No information found.\<close> and no \<^verbatim>\<open>sources\<close> field. The
  \<^verbatim>\<open>catch\<close> clause is not entered: nothing is written with \<^verbatim>\<open>console.error\<close>.
\<close>

theorem execute_null_results:
  assumes "validateToolParams sv params = None"
    and "query params = Some q"
    and "\<not> aborted signal"
    and "ddgs \<lparr>keywords' = Some q, safesearch = str ''off'', maxResults = 5\<rparr> = Resolved None"
  shows "execute sv ddgs params signal =
      (\<lparr>llmContent = str ''No search results found for query: \"'' @ q @ str ''\"'',
        returnDisplay = str ''No information found.'',
        sources = None\<rparr>,
       [DdgsText \<lparr>keywords' = Some q, safesearch = str ''off'', maxResults = 5\<rparr>])
     \<and> execute sv ddgs params signal = execute sv (resolves_with (Some [])) params signal"
  using assms
  by (simp add: execute_valid try_catch_def try_block_def no_results_def template_def
      resolves_with_def)

theorem execute_null_results_witness:
  "validateToolParams required_query \<lparr>query = Some (str ''empty search'')\<rparr> = None
   \<and> \<not> aborted \<lparr>aborted = False\<rparr>
   \<and> execute required_query (resolves_with None)
         \<lparr>query = Some (str ''empty search'')\<rparr> \<lparr>aborted = False\<rparr> =
       (\<lparr>llmContent = str ''No search results found for query: \"empty search\"'',
         returnDisplay = str ''No information found.'',
         sources = None\<rparr>,
        [DdgsText \<lparr>keywords' = Some (str ''empty search''), safesearch = str ''off'',
           maxResults = 5\<rparr>])"
proof -
  have valid: "validateToolParams required_query \<lparr>query = Some (str ''empty search'')\<rparr> = None"
    by (simp add: valid_example trim_examples)
  have live: "\<not> aborted \<lparr>aborted = False\<rparr>"
    by simp
  have resolved: "resolves_with None
      \<lparr>keywords' = Some (str ''empty search''), safesearch = str ''off'', maxResults = 5\<rparr>
      = Resolved None"
    by (simp add: resolves_with_def)
  have whole: "str ''No search results found for query: \"'' @ str ''empty search'' @ str ''\"''
      = str ''No search results found for query: \"empty search\"''"
    by (simp add: str_def)
  from execute_null_results [of required_query "\<lparr>query = Some (str ''empty search'')\<rparr>"
         "str ''empty search''" "\<lparr>aborted = False\<rparr>" "resolves_with None"]
       valid live resolved
  have "execute required_query (resolves_with None)
         \<lparr>query = Some (str ''empty search'')\<rparr> \<lparr>aborted = False\<rparr> =
       (\<lparr>llmContent = str ''No search results found for query: \"'' @ str ''empty search''
            @ str ''\"'',
         returnDisplay = str ''No information found.'',
         sources = None\<rparr>,
        [DdgsText \<lparr>keywords' = Some (str ''empty search''), safesearch = str ''off'',
           maxResults = 5\<rparr>])"
    by simp
  with valid live show ?thesis
    by (simp add: whole)
qed

subsection \<open>The result list\<close>

text \<open>
  The loop appends to its two accumulators the blocks and the source lines of the results
  it visits, numbered from the index it starts at plus one.
\<close>

lemma forEach_acc:
  "forEach rs index (f, s) =
     (f @ concat (map (\<lambda>(i, r). result_block i r) (enumerate (index + 1) rs)),
      s @ map (\<lambda>(i, r). source_line i r) (enumerate (index + 1) rs))"
  by (induction rs arbitrary: index f s)
     (simp_all add: forEach_callback_def Let_def result_block_def source_line_def)

lemma format_results_listing:
  "query params = Some q \<Longrightarrow>
     format_results params rs =
       \<lparr>llmContent = listing source_line q rs,
        returnDisplay = str ''Search results for \"'' @ q @ str ''\" returned.'',
        sources = Some rs\<rparr>"
  by (simp add: format_results_def forEach_acc listing_def template_def)

text \<open>Where every title and every address is present, the two source lines agree.\<close>

lemma claimed_source_line_eq:
  "title r \<noteq> [] \<Longrightarrow> href r \<noteq> [] \<Longrightarrow> claimed_source_line i r = source_line i r"
  by (simp add: claimed_source_line_def source_line_def or_else_def)

lemma listing_test_results:
  "listing source_line (str ''test search'') test_results =
     str ''DuckDuckGo search results for \"test search\":\<newline>\<newline>1. Test Result 1\<newline>   URL: https://example.com/1\<newline>   Snippet: This is a test result snippet 1\<newline>\<newline>2. Test Result 2\<newline>   URL: https://example.com/2\<newline>   Snippet: This is a test result snippet 2\<newline>\<newline>\<newline>Sources:\<newline>[1] Test Result 1 (https://example.com/1)\<newline>[2] Test Result 2 (https://example.com/2)''"
  by (simp add: listing_def test_results_def result_block_def source_line_def or_else_def
      number_toString_small str_def)

text \<open>
  Claim C1, as the code has it. With valid parameters, when the provider call resolves to
  a list \<open>rs\<close> of one or more results, \<^verbatim>\<open>llmContent\<close> is the header line
  \<^verbatim>\<open>DuckDuckGo search results for "<query>":\<close> and an empty line, then for each result in
  the provider's order, numbered from 1, the block
  \<^verbatim>\<open><i>. <title or Untitled>\<close>, \<^verbatim>\<open>   URL: <href or No URL>\<close>,
  \<^verbatim>\<open>   Snippet: <body or No description>\<close> and an empty line, then an empty line,
  \<^verbatim>\<open>Sources:\<close> and one line \<^verbatim>\<open>[<i>] <title or Untitled> (<href or No URL>)\<close> per result,
  joined by line feeds; \<^verbatim>\<open>returnDisplay\<close> is
  \<^verbatim>\<open>Search results for "<query>" returned.\<close>; \<^verbatim>\<open>sources\<close> is \<open>rs\<close>, unchanged. The
  source lines carry the same fallbacks as the blocks.
\<close>

theorem execute_results:
  assumes "validateToolParams sv params = None"
    and "query params = Some q"
    and "\<not> aborted signal"
    and "ddgs \<lparr>keywords' = Some q, safesearch = str ''off'', maxResults = 5\<rparr> = Resolved (Some rs)"
    and "rs \<noteq> []"
  shows "execute sv ddgs params signal =
      (\<lparr>llmContent = listing source_line q rs,
        returnDisplay = str ''Search results for \"'' @ q @ str ''\" returned.'',
        sources = Some rs\<rparr>,
       [DdgsText \<lparr>keywords' = Some q, safesearch = str ''off'', maxResults = 5\<rparr>])"
  using assms
  by (simp add: execute_valid try_catch_def try_block_def format_results_listing)

text \<open>The two results of the unit test, with the whole text that is returned for them.\<close>

theorem execute_results_witness:
  "validateToolParams required_query \<lparr>query = Some (str ''test search'')\<rparr> = None
   \<and> \<not> aborted \<lparr>aborted = False\<rparr>
   \<and> test_results \<noteq> []
   \<and> execute required_query (resolves_with (Some test_results))
         \<lparr>query = Some (str ''test search'')\<rparr> \<lparr>aborted = False\<rparr> =
       (\<lparr>llmContent = str ''DuckDuckGo search results for \"test search\":\<newline>\<newline>1. Test Result 1\<newline>   URL: https://example.com/1\<newline>   Snippet: This is a test result snippet 1\<newline>\<newline>2. Test Result 2\<newline>   URL: https://example.com/2\<newline>   Snippet: This is a test result snippet 2\<newline>\<newline>\<newline>Sources:\<newline>[1] Test Result 1 (https://example.com/1)\<newline>[2] Test Result 2 (https://example.com/2)'',
         returnDisplay = str ''Search results for \"test search\" returned.'',
         sources = Some test_results\<rparr>,
        [DdgsText \<lparr>keywords' = Some (str ''test search''), safesearch = str ''off'',
           maxResults = 5\<rparr>])"
proof -
  have valid: "validateToolParams required_query \<lparr>query = Some (str ''test search'')\<rparr> = None"
    by (simp add: valid_example trim_examples)
  have live: "\<not> aborted \<lparr>aborted = False\<rparr>"
    by simp
  have some: "test_results \<noteq> []"
    by (simp add: test_results_def)
  have resolved: "resolves_with (Some test_results)
      \<lparr>keywords' = Some (str ''test search''), safesearch = str ''off'', maxResults = 5\<rparr>
      = Resolved (Some test_results)"
    by (simp add: resolves_with_def)
  have display: "str ''Search results for \"'' @ str ''test search'' @ str ''\" returned.''
      = str ''Search results for \"test search\" returned.''"
    by (simp add: str_def)
  from execute_results [of required_query "\<lparr>query = Some (str ''test search'')\<rparr>"
         "str ''test search''" "\<lparr>aborted = False\<rparr>" "resolves_with (Some test_results)"
         test_results]
       valid live resolved some
  have "execute required_query (resolves_with (Some test_results))
         \<lparr>query = Some (str ''test search'')\<rparr> \<lparr>aborted = False\<rparr> =
       (\<lparr>llmContent = listing source_line (str ''test search'') test_results,
         returnDisplay = str ''Search results for \"'' @ str ''test search'' @ str ''\" returned.'',
         sources = Some test_results\<rparr>,
        [DdgsText \<lparr>keywords' = Some (str ''test search''), safesearch = str ''off'',
           maxResults = 5\<rparr>])"
    by simp
  with valid live some show ?thesis
    by (simp only: listing_test_results display simp_thms)
qed

text \<open>
  Claim C1 in the specification's words has the source lines \<^verbatim>\<open>[<i>] <title> (<href>)\<close>.
  For a result whose title and address are empty strings, with valid parameters and a
  provider that resolves to that one result, the code writes the source line
  \<^verbatim>\<open>[1] Untitled (No URL)\<close> where the claim has \<^verbatim>\<open>[1]  ()\<close>.
\<close>

theorem claimed_listing_counterexample:
  "validateToolParams required_query \<lparr>query = Some (str ''test search'')\<rparr> = None
   \<and> \<not> aborted \<lparr>aborted = False\<rparr>
   \<and> resolves_with (Some [\<lparr>title = [], href = [], body = str ''A page''\<rparr>])
         \<lparr>keywords' = Some (str ''test search''), safesearch = str ''off'', maxResults = 5\<rparr>
       = Resolved (Some [\<lparr>title = [], href = [], body = str ''A page''\<rparr>])
   \<and> llmContent (fst (execute required_query
         (resolves_with (Some [\<lparr>title = [], href = [], body = str ''A page''\<rparr>]))
         \<lparr>query = Some (str ''test search'')\<rparr> \<lparr>aborted = False\<rparr>))
       \<noteq> listing claimed_source_line (str ''test search'')
           [\<lparr>title = [], href = [], body = str ''A page''\<rparr>]"
proof -
  have valid: "validateToolParams required_query \<lparr>query = Some (str ''test search'')\<rparr> = None"
    by (simp add: valid_example trim_examples)
  have resolved: "resolves_with (Some [\<lparr>title = [], href = [], body = str ''A page''\<rparr>])
         \<lparr>keywords' = Some (str ''test search''), safesearch = str ''off'', maxResults = 5\<rparr>
       = Resolved (Some [\<lparr>title = [], href = [], body = str ''A page''\<rparr>])"
    by (simp add: resolves_with_def)
  have code: "llmContent (fst (execute required_query
       (resolves_with (Some [\<lparr>title = [], href = [], body = str ''A page''\<rparr>]))
       \<lparr>query = Some (str ''test search'')\<rparr> \<lparr>aborted = False\<rparr>))
     = listing source_line (str ''test search'')
         [\<lparr>title = [], href = [], body = str ''A page''\<rparr>]"
    by (simp add: execute_valid [OF valid] try_catch_def try_block_def resolves_with_def
        format_results_listing)
  have written: "source_line 1 \<lparr>title = [], href = [], body = str ''A page''\<rparr>
      = str ''[1] Untitled (No URL)''"
    by (simp add: source_line_def or_else_def number_toString_small str_def)
  have claimed: "claimed_source_line 1 \<lparr>title = [], href = [], body = str ''A page''\<rparr>
      = str ''[1]  ()''"
    by (simp add: claimed_source_line_def number_toString_small str_def)
  have differ: "str ''[1] Untitled (No URL)'' \<noteq> str ''[1]  ()''"
    by (simp add: str_def)
  from written claimed differ
  have "listing source_line (str ''test search'')
          [\<lparr>title = [], href = [], body = str ''A page''\<rparr>]
      \<noteq> listing claimed_source_line (str ''test search'')
          [\<lparr>title = [], href = [], body = str ''A page''\<rparr>]"
    by (simp add: listing_def)
  with valid resolved code show ?thesis
    by simp
qed

subsection \<open>The sources field\<close>

text \<open>
  Claim C2. The \<^verbatim>\<open>sources\<close> field of the result is present and equal to a list \<open>rs\<close>
  exactly when the parameters were valid, the signal was not aborted, and the provider
  call resolved to \<open>rs\<close> with at least one result in it; the field is absent in every
  other case: a validation error, a provider failure (an aborted signal included), and a
  provider answer without results.
\<close>

theorem sources_present_iff:
  "(sources (fst (execute sv ddgs params signal)) = Some rs \<longleftrightarrow>
      validateToolParams sv params = None \<and> \<not> aborted signal
      \<and> ddgs \<lparr>keywords' = query params, safesearch = str ''off'', maxResults = 5\<rparr>
           = Resolved (Some rs)
      \<and> rs \<noteq> [])
   \<and> (sources (fst (execute sv ddgs params signal)) = None \<longleftrightarrow>
      \<not> (validateToolParams sv params = None \<and> \<not> aborted signal
         \<and> (\<exists>rs'. ddgs \<lparr>keywords' = query params, safesearch = str ''off'', maxResults = 5\<rparr>
               = Resolved (Some rs') \<and> rs' \<noteq> [])))"
proof (cases "validateToolParams sv params")
  case None
  then show ?thesis
    by (auto simp: execute_valid try_catch_def try_block_def catch_block_def Let_def
        no_results_def format_results_def split_def
        split: option.splits settlement.splits if_splits)
next
  case (Some m)
  then have "m \<noteq> []"
    by (rule validateToolParams_Some_nonempty)
  with Some show ?thesis
    by (simp add: execute_def)
qed

text \<open>The four outcomes at the inputs of the unit tests.\<close>

theorem sources_present_iff_witness:
  "sources (fst (execute required_query (resolves_with (Some test_results))
       \<lparr>query = Some (str ''test search'')\<rparr> \<lparr>aborted = False\<rparr>)) = Some test_results
   \<and> sources (fst (execute required_query (resolves_with (Some []))
       \<lparr>query = Some (str ''empty search'')\<rparr> \<lparr>aborted = False\<rparr>)) = None
   \<and> sources (fst (execute required_query (rejects_with (Error (str ''Network error'')))
       \<lparr>query = Some (str ''error search'')\<rparr> \<lparr>aborted = False\<rparr>)) = None
   \<and> sources (fst (execute required_query (resolves_with (Some test_results))
       \<lparr>query = Some []\<rparr> \<lparr>aborted = False\<rparr>)) = None"
proof -
  have valid: "validateToolParams required_query \<lparr>query = Some (str ''test search'')\<rparr> = None"
    by (simp add: valid_example trim_examples)
  have some: "test_results \<noteq> []"
    by (simp add: test_results_def)
  from sources_present_iff [of required_query "resolves_with (Some test_results)"
         "\<lparr>query = Some (str ''test search'')\<rparr>" "\<lparr>aborted = False\<rparr>" test_results]
       valid some
  have found: "sources (fst (execute required_query (resolves_with (Some test_results))
       \<lparr>query = Some (str ''test search'')\<rparr> \<lparr>aborted = False\<rparr>)) = Some test_results"
    by (simp add: resolves_with_def)
  from sources_present_iff [of required_query "resolves_with (Some [])"
         "\<lparr>query = Some (str ''empty search'')\<rparr>" "\<lparr>aborted = False\<rparr>"]
  have empty: "sources (fst (execute required_query (resolves_with (Some []))
       \<lparr>query = Some (str ''empty search'')\<rparr> \<lparr>aborted = False\<rparr>)) = None"
    by (simp add: resolves_with_def)
  from sources_present_iff [of required_query "rejects_with (Error (str ''Network error''))"
         "\<lparr>query = Some (str ''error search'')\<rparr>" "\<lparr>aborted = False\<rparr>"]
  have failed: "sources (fst (execute required_query (rejects_with (Error (str ''Network error'')))
       \<lparr>query = Some (str ''error search'')\<rparr> \<lparr>aborted = False\<rparr>)) = None"
    by (simp add: rejects_with_def)
  from sources_present_iff [of required_query "resolves_with (Some test_results)"
         "\<lparr>query = Some []\<rparr>" "\<lparr>aborted = False\<rparr>"]
  have invalid: "sources (fst (execute required_query (resolves_with (Some test_results))
       \<lparr>query = Some []\<rparr> \<lparr>aborted = False\<rparr>)) = None"
    by (simp add: empty_query_invalid)
  from found empty failed invalid show ?thesis
    by simp
qed

subsection \<open>Determinism\<close>

text \<open>
  Claim C9. Take two invocations with the same query string in which the provider is
  called (the signal is not aborted at entry) and resolves to the same value, a list of
  results or \<^verbatim>\<open>null\<close>; the providers may differ on every other request. The two results
  have the same \<^verbatim>\<open>llmContent\<close> and the same \<^verbatim>\<open>returnDisplay\<close>, code unit for code
  unit.
\<close>

theorem execute_deterministic:
  assumes "query params1 = query params2"
    and "\<not> aborted signal1" and "\<not> aborted signal2"
    and "ddgs1 \<lparr>keywords' = query params1, safesearch = str ''off'', maxResults = 5\<rparr> = Resolved v"
    and "ddgs2 \<lparr>keywords' = query params2, safesearch = str ''off'', maxResults = 5\<rparr> = Resolved v"
  shows "llmContent (fst (execute sv ddgs1 params1 signal1)) =
           llmContent (fst (execute sv ddgs2 params2 signal2))
     \<and> returnDisplay (fst (execute sv ddgs1 params1 signal1)) =
           returnDisplay (fst (execute sv ddgs2 params2 signal2))"
proof -
  from assms(1) have same: "params1 = params2" by simp
  from assms have "try_catch ddgs1 params1 signal1 = try_catch ddgs2 params2 signal2"
    by (simp add: same try_catch_def try_block_def)
  then show ?thesis
    by (simp add: same execute_def split: option.split)
qed

text \<open>Two providers that agree on the request of the tool and on nothing else.\<close>

theorem execute_deterministic_witness:
  "\<not> aborted \<lparr>aborted = False\<rparr>
   \<and> resolves_with (Some test_results)
         \<lparr>keywords' = Some (str ''test search''), safesearch = str ''off'', maxResults = 5\<rparr>
       = Resolved (Some test_results)
   \<and> answers_only
         \<lparr>keywords' = Some (str ''test search''), safesearch = str ''off'', maxResults = 5\<rparr>
         (Some test_results)
         \<lparr>keywords' = Some (str ''test search''), safesearch = str ''off'', maxResults = 5\<rparr>
       = Resolved (Some test_results)
   \<and> llmContent (fst (execute required_query (resolves_with (Some test_results))
         \<lparr>query = Some (str ''test search'')\<rparr> \<lparr>aborted = False\<rparr>))
       = llmContent (fst (execute required_query
           (answers_only
              \<lparr>keywords' = Some (str ''test search''), safesearch = str ''off'', maxResults = 5\<rparr>
              (Some test_results))
         \<lparr>query = Some (str ''test search'')\<rparr> \<lparr>aborted = False\<rparr>))
   \<and> returnDisplay (fst (execute required_query (resolves_with (Some test_results))
         \<lparr>query = Some (str ''test search'')\<rparr> \<lparr>aborted = False\<rparr>))
       = returnDisplay (fst (execute required_query
           (answers_only
              \<lparr>keywords' = Some (str ''test search''), safesearch = str ''off'', maxResults = 5\<rparr>
              (Some test_results))
         \<lparr>query = Some (str ''test search'')\<rparr> \<lparr>aborted = False\<rparr>))"
proof -
  have live: "\<not> aborted \<lparr>aborted = False\<rparr>"
    by simp
  have first: "resolves_with (Some test_results)
         \<lparr>keywords' = query \<lparr>query = Some (str ''test search'')\<rparr>, safesearch = str ''off'',
            maxResults = 5\<rparr>
       = Resolved (Some test_results)"
    by (simp add: resolves_with_def)
  have second: "answers_only
         \<lparr>keywords' = Some (str ''test search''), safesearch = str ''off'', maxResults = 5\<rparr>
         (Some test_results)
         \<lparr>keywords' = query \<lparr>query = Some (str ''test search'')\<rparr>, safesearch = str ''off'',
            maxResults = 5\<rparr>
       = Resolved (Some test_results)"
    by (simp add: answers_only_def)
  from execute_deterministic
         [where ?params1.0 = "\<lparr>query = Some (str ''test search'')\<rparr>"
            and ?params2.0 = "\<lparr>query = Some (str ''test search'')\<rparr>"
            and ?signal1.0 = "\<lparr>aborted = False\<rparr>"
            and ?signal2.0 = "\<lparr>aborted = False\<rparr>"
            and ?ddgs1.0 = "resolves_with (Some test_results)"
            and ?ddgs2.0 = "answers_only
              \<lparr>keywords' = Some (str ''test search''), safesearch = str ''off'', maxResults = 5\<rparr>
              (Some test_results)"
            and v = "Some test_results" and sv = required_query]
       live first second
  have agree: "llmContent (fst (execute required_query (resolves_with (Some test_results))
         \<lparr>query = Some (str ''test search'')\<rparr> \<lparr>aborted = False\<rparr>))
       = llmContent (fst (execute required_query
           (answers_only
              \<lparr>keywords' = Some (str ''test search''), safesearch = str ''off'', maxResults = 5\<rparr>
              (Some test_results))
         \<lparr>query = Some (str ''test search'')\<rparr> \<lparr>aborted = False\<rparr>))
   \<and> returnDisplay (fst (execute required_query (resolves_with (Some test_results))
         \<lparr>query = Some (str ''test search'')\<rparr> \<lparr>aborted = False\<rparr>))
       = returnDisplay (fst (execute required_query
           (answers_only
              \<lparr>keywords' = Some (str ''test search''), safesearch = str ''off'', maxResults = 5\<rparr>
              (Some test_results))
         \<lparr>query = Some (str ''test search'')\<rparr> \<lparr>aborted = False\<rparr>))"
    by simp
  from live first second agree show ?thesis
    by simp
qed

end
